theory Spec2Isabelle
  imports Main "HOL-Library.Word" "HOL-Library.AList" "HOL-Library.Sublist"
begin

section \<open>The nullability lattice\<close>

text \<open>
  The enumeration of \<^verbatim>\<open>NullabilityChecker.cpp\<close>, in its declaration order
  (\<^verbatim>\<open>enum class Nullability : char\<close>): the order is what \<^verbatim>\<open>getMostNullable\<close> relies on.
\<close>

datatype Nullability = Contradicted | Nullable | Unspecified | Nonnull

text \<open>\<^verbatim>\<open>static_cast<char>(Nullab)\<close>: the enumerators are numbered from 0.\<close>

fun char_of_Nullability :: "Nullability \<Rightarrow> 8 word" where
  "char_of_Nullability Contradicted = 0"
| "char_of_Nullability Nullable = 1"
| "char_of_Nullability Unspecified = 2"
| "char_of_Nullability Nonnull = 3"

text \<open>
  \<^verbatim>\<open>static_cast<Nullability>(c)\<close>: a \<^verbatim>\<open>char\<close> that is the number of no enumerator names
  no value of the enumeration.
\<close>

definition Nullability_of_char :: "8 word \<Rightarrow> Nullability option" where
  "Nullability_of_char c =
     (if c = 0 then Some Contradicted
      else if c = 1 then Some Nullable
      else if c = 2 then Some Unspecified
      else if c = 3 then Some Nonnull
      else None)"

text \<open>
  \<^verbatim>\<open>std::min\<close> on \<^verbatim>\<open>char\<close>: the second operand when it is smaller, the first otherwise.
  The comparison is the signed one (plain \<^verbatim>\<open>char\<close> on the usual targets); on the values
  0..3 the unsigned comparison agrees with it.
\<close>

definition std_min :: "8 word \<Rightarrow> 8 word \<Rightarrow> 8 word" where
  "std_min a b = (if b <s a then b else a)"

definition getMostNullable :: "Nullability \<Rightarrow> Nullability \<Rightarrow> Nullability" where
  "getMostNullable Lhs Rhs =
     the (Nullability_of_char (std_min (char_of_Nullability Lhs) (char_of_Nullability Rhs)))"

fun getNullabilityString :: "Nullability \<Rightarrow> string" where
  "getNullabilityString Contradicted = ''contradicted''"
| "getNullabilityString Nullable = ''nullable''"
| "getNullabilityString Unspecified = ''unspecified''"
| "getNullabilityString Nonnull = ''nonnull''"

text \<open>The position of a value in the order Contradicted < Nullable < Unspecified < Nonnull.\<close>

fun rank :: "Nullability \<Rightarrow> nat" where
  "rank Contradicted = 0"
| "rank Nullable = 1"
| "rank Unspecified = 2"
| "rank Nonnull = 3"

section \<open>Types, statements, symbolic values and regions\<close>

text \<open>
  What the checker reads of the analyzer's own classes, which are declared outside this
  file. A type is known by the three queries the checker makes of it.
\<close>

datatype AttrKind = attr_nonnull | attr_nullable | attr_null_unspecified | attr_other

record QualType =
  isAnyPointerType :: bool
  isReferenceType :: bool
  getAsAttributedType :: "AttrKind option"

definition getNullabilityAnnotation :: "QualType \<Rightarrow> Nullability" where
  "getNullabilityAnnotation Type =
     (case getAsAttributedType Type of
        None \<Rightarrow> Unspecified
      | Some AttrKind \<Rightarrow>
          if AttrKind = attr_nullable then Nullable
          else if AttrKind = attr_nonnull then Nonnull
          else Unspecified)"

text \<open>
  A statement is an identity (the address the checker stores as nullability source); of a
  binary operator the checker also reads the two operands.
\<close>

datatype Stmt = BinaryOperator nat Stmt Stmt | PlainStmt nat

record Expr =
  Expr_Stmt :: Stmt
  Expr_getType :: QualType

datatype SymExpr = SymExpr nat QualType

fun SymExpr_getType :: "SymExpr \<Rightarrow> QualType" where
  "SymExpr_getType (SymExpr n T) = T"

text \<open>
  Memory regions: the symbolic regions the checker tracks, the typed value regions
  (variables, fields, elements) and a region with no value type.
\<close>

datatype MemRegion =
    SymbolicRegion SymExpr
  | VarRegion nat QualType
  | FieldRegion nat QualType MemRegion
  | ElementRegion QualType nat MemRegion
  | AllocaRegion nat

text \<open>\<^verbatim>\<open>dyn_cast<SymbolicRegion>(R)\<close>\<close>

fun dyn_cast_SymbolicRegion :: "MemRegion \<Rightarrow> MemRegion option" where
  "dyn_cast_SymbolicRegion (SymbolicRegion Sym) = Some (SymbolicRegion Sym)"
| "dyn_cast_SymbolicRegion R = None"

text \<open>\<^verbatim>\<open>dyn_cast<TypedValueRegion>(R)\<close>, answered by the region's \<^verbatim>\<open>getValueType()\<close>.\<close>

fun dyn_cast_TypedValueRegion :: "MemRegion \<Rightarrow> QualType option" where
  "dyn_cast_TypedValueRegion (VarRegion n T) = Some T"
| "dyn_cast_TypedValueRegion (FieldRegion n T Super) = Some T"
| "dyn_cast_TypedValueRegion (ElementRegion T i Super) = Some T"
| "dyn_cast_TypedValueRegion R = None"

datatype SVal =
    UndefinedVal
  | UnknownVal
  | MemRegionVal MemRegion
  | SymbolVal SymExpr
  | ConcreteInt int

text \<open>\<^verbatim>\<open>Val.getAs<DefinedOrUnknownSVal>()\<close>: every value but the undefined one.\<close>

fun getAs_DefinedOrUnknownSVal :: "SVal \<Rightarrow> SVal option" where
  "getAs_DefinedOrUnknownSVal UndefinedVal = None"
| "getAs_DefinedOrUnknownSVal V = Some V"

text \<open>\<^verbatim>\<open>Val.getAs<loc::MemRegionVal>()\<close>, answered by the wrapped region.\<close>

fun getAs_MemRegionVal :: "SVal \<Rightarrow> MemRegion option" where
  "getAs_MemRegionVal (MemRegionVal R) = Some R"
| "getAs_MemRegionVal V = None"

text \<open>\<^verbatim>\<open>Val.getAsRegion()\<close> of the analyzer: the region of a region value.\<close>

fun getAsRegion :: "SVal \<Rightarrow> MemRegion option" where
  "getAsRegion (MemRegionVal R) = Some R"
| "getAsRegion V = None"

text \<open>
  \<^verbatim>\<open>Val.getAsSymbol()\<close> of the analyzer: the symbol of a symbolic value, or the symbol
  of the symbolic region a location value wraps.
\<close>

fun getAsSymbol :: "SVal \<Rightarrow> SymExpr option" where
  "getAsSymbol (SymbolVal Sym) = Some Sym"
| "getAsSymbol (MemRegionVal (SymbolicRegion Sym)) = Some Sym"
| "getAsSymbol V = None"

text \<open>
  If a value wraps a region that should be tracked, \<^verbatim>\<open>getTrackRegion\<close> returns that
  region, and no region otherwise.
\<close>

definition getTrackRegion :: "SVal \<Rightarrow> bool \<Rightarrow> MemRegion option" where
  "getTrackRegion Val CheckSuperRegion =
     (case getAs_MemRegionVal Val of
        None \<Rightarrow> None
      | Some Region \<Rightarrow>
          if CheckSuperRegion then
            (case Region of
               FieldRegion n T Super \<Rightarrow> dyn_cast_SymbolicRegion Super
             | ElementRegion T i Super \<Rightarrow> dyn_cast_SymbolicRegion Super
             | _ \<Rightarrow> dyn_cast_SymbolicRegion Region)
          else dyn_cast_SymbolicRegion Region)"

section \<open>The tracked state\<close>

record NullabilityState =
  getValue :: Nullability
  getNullabilitySource :: "Stmt option"

text \<open>
  The program state of a path: the constraint manager's answer to \<^verbatim>\<open>State->isNull(Val)\<close>
  (constrained true, constrained false, or not constrained) and the map registered with
  \<^verbatim>\<open>REGISTER_MAP_WITH_PROGRAMSTATE\<close>, kept as an association list with one entry per key.
\<close>

record ProgramState =
  isNull :: "SVal \<Rightarrow> bool option"
  NullabilityMap :: "(MemRegion \<times> NullabilityState) list"

definition get_NullabilityMap :: "ProgramState \<Rightarrow> MemRegion \<Rightarrow> NullabilityState option" where
  "get_NullabilityMap State Region = map_of (NullabilityMap State) Region"

definition set_NullabilityMap ::
  "ProgramState \<Rightarrow> MemRegion \<Rightarrow> NullabilityState \<Rightarrow> ProgramState" where
  "set_NullabilityMap State Region NS =
     State\<lparr>NullabilityMap := AList.update Region NS (NullabilityMap State)\<rparr>"

definition remove_NullabilityMap :: "ProgramState \<Rightarrow> MemRegion \<Rightarrow> ProgramState" where
  "remove_NullabilityMap State Region =
     State\<lparr>NullabilityMap := AList.delete Region (NullabilityMap State)\<rparr>"

datatype NullConstraint = IsNull | IsNotNull | Unknown

definition getNullConstraint :: "SVal \<Rightarrow> ProgramState \<Rightarrow> NullConstraint" where
  "getNullConstraint Val State =
     (let Nullness = isNull State Val in
      if Nullness = Some False then IsNotNull
      else if Nullness = Some True then IsNull
      else Unknown)"

section \<open>Reports, nodes and the checker context\<close>

datatype ErrorKind =
    NilAssignedToNonnull
  | NilPassedToNonnull
  | NilReturnedToNonnull
  | NullableAssignedToNonnull
  | NullableReturnedToNonnull
  | NullableDereferenced
  | NullablePassedToNonnull

fun int_of_ErrorKind :: "ErrorKind \<Rightarrow> nat" where
  "int_of_ErrorKind NilAssignedToNonnull = 0"
| "int_of_ErrorKind NilPassedToNonnull = 1"
| "int_of_ErrorKind NilReturnedToNonnull = 2"
| "int_of_ErrorKind NullableAssignedToNonnull = 3"
| "int_of_ErrorKind NullableReturnedToNonnull = 4"
| "int_of_ErrorKind NullableDereferenced = 5"
| "int_of_ErrorKind NullablePassedToNonnull = 6"

definition ErrorMessages :: "string list" where
  "ErrorMessages =
     [''Null pointer is assigned to a pointer which has _Nonnull type'',
      ''Null pointer is passed to a parameter which is marked as _Nonnull'',
      ''Null pointer is returned from a function that has _Nonnull return type'',
      ''Nullable pointer is assigned to a pointer which has _Nonnull type'',
      ''Nullable pointer is returned from a function that has _Nonnull return type'',
      ''Nullable pointer is dereferenced'',
      ''Nullable pointer is passed to a parameter which is marked as _Nonnull'']"

record NullabilityChecksFilter =
  CheckNullPassedToNonnull :: bool
  CheckNullReturnedFromNonnull :: bool
  CheckNullableDereferenced :: bool
  CheckNullablePassedToNonnull :: bool
  CheckNullableReturnedFromNonnull :: bool

text \<open>
  A node of the exploded graph as a checker makes it: its state, its program point tag,
  and whether it is a sink (a node from which the path is not explored further).
\<close>

record ExplodedNode =
  Node_getState :: ProgramState
  Node_Tag :: "string option"
  isSink :: bool

text \<open>
  A bug report as \<^verbatim>\<open>reportBug\<close> builds it: the error kind and its message, the error
  node, the region marked interesting (the one the bug visitor follows), the statement
  whose source range is added, and whether the null value is tracked back.
\<close>

record BugReport =
  Report_Error :: ErrorKind
  Report_Msg :: string
  Report_ErrorNode :: ExplodedNode
  Report_Interesting :: "MemRegion option"
  Report_Range :: "Stmt option"
  Report_trackNullOrUndefValue :: bool

text \<open>
  The checker context of one callback: the state of the predecessor node, whether the
  call was inlined, and what the callback has produced so far, in order: the nodes added
  with \<^verbatim>\<open>addTransition\<close> and \<^verbatim>\<open>generateSink\<close>, and the reports emitted.
\<close>

record CheckerContext =
  getState :: ProgramState
  wasInlined :: bool
  Nodes :: "ExplodedNode list"
  Reports :: "BugReport list"

definition startContext :: "ProgramState \<Rightarrow> bool \<Rightarrow> CheckerContext" where
  "startContext State Inlined =
     \<lparr>getState = State, wasInlined = Inlined, Nodes = [], Reports = []\<rparr>"

text \<open>
  \<^verbatim>\<open>C.addTransition(State, Pred, Tag)\<close> and \<^verbatim>\<open>C.generateSink(State, Pred, Tag)\<close>: the
  node made, and the context with the node added. A transition without a tag to the state
  of the predecessor makes no node: the engine answers the predecessor itself (a node with
  the state the callback came with, which is not a sink) and the context stays as it was.
\<close>

definition addTransition ::
  "ProgramState \<Rightarrow> string option \<Rightarrow> CheckerContext \<Rightarrow> ExplodedNode \<times> CheckerContext" where
  "addTransition State Tag C =
     (if State = getState C \<and> Tag = None
      then (\<lparr>Node_getState = getState C, Node_Tag = None, isSink = False\<rparr>, C)
      else
        let N = \<lparr>Node_getState = State, Node_Tag = Tag, isSink = False\<rparr>
        in (N, C\<lparr>Nodes := Nodes C @ [N]\<rparr>))"

definition generateSink ::
  "ProgramState \<Rightarrow> string option \<Rightarrow> CheckerContext \<Rightarrow> ExplodedNode \<times> CheckerContext" where
  "generateSink State Tag C =
     (let N = \<lparr>Node_getState = State, Node_Tag = Tag, isSink = True\<rparr>
      in (N, C\<lparr>Nodes := Nodes C @ [N]\<rparr>))"

text \<open>
  The states from which the engine goes on after a callback: the state it came with when
  the callback added no node, and the states of the nodes added that are not sinks
  otherwise.
\<close>

definition successors :: "CheckerContext \<Rightarrow> ProgramState list" where
  "successors C =
     (if Nodes C = [] then [getState C]
      else map Node_getState (filter (\<lambda>N. \<not> isSink N) (Nodes C)))"

definition makeBugReport ::
  "ErrorKind \<Rightarrow> ExplodedNode \<Rightarrow> MemRegion option \<Rightarrow> Stmt option \<Rightarrow> BugReport" where
  "makeBugReport Error N Region ValueExpr =
     (let Msg = ErrorMessages ! int_of_ErrorKind Error
      in \<lparr>Report_Error = Error, Report_Msg = Msg, Report_ErrorNode = N,
          Report_Interesting = Region, Report_Range = ValueExpr,
          Report_trackNullOrUndefValue =
            (ValueExpr \<noteq> None \<and>
             (Error = NilAssignedToNonnull \<or> Error = NilPassedToNonnull \<or>
              Error = NilReturnedToNonnull))\<rparr>)"

text \<open>\<^verbatim>\<open>reportBug\<close> with the bug reporter of the checker context.\<close>

definition reportBug ::
  "ErrorKind \<Rightarrow> ExplodedNode \<Rightarrow> MemRegion option \<Rightarrow> Stmt option \<Rightarrow> CheckerContext
     \<Rightarrow> CheckerContext" where
  "reportBug Error N Region ValueExpr C =
     C\<lparr>Reports := Reports C @ [makeBugReport Error N Region ValueExpr]\<rparr>"

text \<open>What goes wrong in a callback: a null pointer or an empty optional is dereferenced.\<close>

datatype CheckerError = NullPointerDereference | EmptyOptionalAccess

section \<open>Liveness sweep and implicit dereference\<close>

text \<open>
  The loop of \<^verbatim>\<open>checkDeadSymbols\<close> over the entries of the map: the local state after
  removing every entry whose region the symbol reaper does not report live.
\<close>

definition removeDeadRegions ::
  "(MemRegion \<Rightarrow> bool) \<Rightarrow> (MemRegion \<times> NullabilityState) list \<Rightarrow> ProgramState
     \<Rightarrow> ProgramState" where
  "removeDeadRegions isLiveRegion Nullabilities State =
     fold (\<lambda>I St. if \<not> isLiveRegion (fst I) then remove_NullabilityMap St (fst I) else St)
       Nullabilities State"

text \<open>
  \<^verbatim>\<open>checkDeadSymbols\<close>: the state computed by the loop is a local variable of the
  callback; the callback ends after the loop, adding no node.
\<close>

definition checkDeadSymbols :: "(MemRegion \<Rightarrow> bool) \<Rightarrow> CheckerContext \<Rightarrow> CheckerContext" where
  "checkDeadSymbols isLiveRegion C =
     (let State = getState C;
          Nullabilities = NullabilityMap State;
          State' = removeDeadRegions isLiveRegion Nullabilities State
      in C)"

record ImplicitNullDerefEvent =
  Event_Location :: SVal
  Event_IsDirectDereference :: bool
  Event_SinkNode :: ExplodedNode

text \<open>\<^verbatim>\<open>checkEvent\<close> has no checker context: it emits into the event's bug reporter.\<close>

definition checkEvent ::
  "NullabilityChecksFilter \<Rightarrow> ImplicitNullDerefEvent \<Rightarrow> BugReport list \<Rightarrow> BugReport list" where
  "checkEvent Filter Event BR =
     (case getTrackRegion (Event_Location Event) True of
        None \<Rightarrow> BR
      | Some Region \<Rightarrow>
          (case get_NullabilityMap (Node_getState (Event_SinkNode Event)) Region of
             None \<Rightarrow> BR
           | Some TrackedNullability \<Rightarrow>
               if CheckNullableDereferenced Filter \<and> getValue TrackedNullability = Nullable
               then
                 BR @ [makeBugReport
                         (if Event_IsDirectDereference Event then NullableDereferenced
                          else NullablePassedToNonnull)
                         (Event_SinkNode Event) (Some Region) None]
               else BR))"

section \<open>Return statements\<close>

text \<open>
  A return statement as \<^verbatim>\<open>checkPreStmt\<close> sees it: the statement, its returned
  expression if any, the value the state gives the statement, and the return type of the
  function type of the declaration being analyzed (none when the declaration has no
  function type).
\<close>

record ReturnStmt =
  Ret_Stmt :: Stmt
  getRetValue :: "Expr option"
  Ret_SVal :: SVal
  Ret_FuncReturnType :: "QualType option"

definition checkPreStmt ::
  "NullabilityChecksFilter \<Rightarrow> ReturnStmt \<Rightarrow> CheckerContext \<Rightarrow> CheckerContext" where
  "checkPreStmt Filter S C =
     (case getRetValue S of
        None \<Rightarrow> C
      | Some RetExpr \<Rightarrow>
        if \<not> isAnyPointerType (Expr_getType RetExpr) then C
        else
          let State = getState C in
          (case getAs_DefinedOrUnknownSVal (Ret_SVal S) of
             None \<Rightarrow> C
           | Some RetSVal \<Rightarrow>
             (case Ret_FuncReturnType S of
                None \<Rightarrow> C
              | Some ReturnType \<Rightarrow>
                let Nullness = getNullConstraint RetSVal State;
                    StaticNullability = getNullabilityAnnotation ReturnType
                in
                if CheckNullReturnedFromNonnull Filter \<and> Nullness = IsNull \<and>
                   StaticNullability = Nonnull
                then
                  (case addTransition State (Some ''NullReturnedFromNonnull'') C of
                     (N, C1) \<Rightarrow> reportBug NilReturnedToNonnull N None (Some (Ret_Stmt S)) C1)
                else
                  (case getTrackRegion RetSVal False of
                     None \<Rightarrow> C
                   | Some Region \<Rightarrow>
                     (case get_NullabilityMap State Region of
                        Some TrackedNullability \<Rightarrow>
                          if CheckNullableReturnedFromNonnull Filter \<and>
                             Nullness \<noteq> IsNotNull \<and>
                             getValue TrackedNullability = Nullable \<and>
                             StaticNullability = Nonnull
                          then
                            (case addTransition State (Some ''NullableReturnedFromNonnull'') C of
                               (N, C1) \<Rightarrow>
                                 reportBug NullableReturnedToNonnull N (Some Region) None C1)
                          else C
                      | None \<Rightarrow>
                          if StaticNullability = Nullable then
                            snd (addTransition
                                   (set_NullabilityMap State Region
                                      \<lparr>getValue = StaticNullability,
                                       getNullabilitySource = Some (Ret_Stmt S)\<rparr>)
                                   None C)
                          else C)))))"

section \<open>Calls\<close>

record ParmVarDecl =
  isParameterPack :: bool
  Parm_getType :: QualType
  Parm_getName :: string

text \<open>
  A callee declaration: the return type of its function type (none when it has no
  function type) and the file name (without directories) of the spelling location where
  the declaration starts.
\<close>

record Decl =
  Decl_FuncReturnType :: "QualType option"
  Decl_FileName :: string

datatype CallEventKind = CE_Function | CE_CXXMember | CE_Block | CE_ObjCMessage

text \<open>
  A call event, by the queries the checker makes of it. The argument expression and the
  argument value are the engine's answers at each index, also at an index that is not
  below the number of arguments.
\<close>

record CallEvent =
  Call_getDecl :: "Decl option"
  Call_getKind :: CallEventKind
  Call_parameters :: "ParmVarDecl list"
  Call_getNumArgs :: nat
  Call_getArgExpr :: "nat \<Rightarrow> Expr option"
  Call_getArgSVal :: "nat \<Rightarrow> SVal"
  Call_getReturnValue :: SVal

text \<open>
  How one iteration of the parameter loop of \<^verbatim>\<open>checkPreCall\<close> ends: with
  \<^verbatim>\<open>break\<close>, with \<^verbatim>\<open>continue\<close> (or at the end of the body) and the state it has
  built, or with a \<^verbatim>\<open>return\<close> from the callback after a report.
\<close>

datatype IterationExit = Break | Continue ProgramState | Return CheckerContext

text \<open>
  The body of the loop for the parameter \<open>Param\<close> at the index \<open>Idx\<close>. The argument
  expression stays null when the index is not below the number of arguments; its type is
  read after the parameter's type has been found to be a pointer or a reference.
\<close>

definition checkPreCall_iteration ::
  "NullabilityChecksFilter \<Rightarrow> CallEvent \<Rightarrow> CheckerContext \<Rightarrow> ParmVarDecl \<Rightarrow> nat
     \<Rightarrow> ProgramState \<Rightarrow> CheckerError + IterationExit" where
  "checkPreCall_iteration Filter Call C Param Idx State =
     (if isParameterPack Param then Inr Break
      else
        let ArgExpr = (if Idx < Call_getNumArgs Call then Call_getArgExpr Call Idx else None) in
        (case getAs_DefinedOrUnknownSVal (Call_getArgSVal Call Idx) of
           None \<Rightarrow> Inr (Continue State)
         | Some ArgSVal \<Rightarrow>
           if \<not> isAnyPointerType (Parm_getType Param) \<and>
              \<not> isReferenceType (Parm_getType Param)
           then Inr (Continue State)
           else
             let Nullness = getNullConstraint ArgSVal State;
                 ParamNullability = getNullabilityAnnotation (Parm_getType Param)
             in
             (case ArgExpr of
                None \<Rightarrow> Inl NullPointerDereference
              | Some AE \<Rightarrow>
                let ArgStaticNullability = getNullabilityAnnotation (Expr_getType AE) in
                if CheckNullPassedToNonnull Filter \<and> Nullness = IsNull \<and>
                   ArgStaticNullability \<noteq> Nonnull \<and> ParamNullability = Nonnull
                then
                  (case generateSink State (Some ''NullPassedToNonnull'') C of
                     (N, C1) \<Rightarrow>
                       Inr (Return
                              (reportBug NilPassedToNonnull N None (Some (Expr_Stmt AE)) C1)))
                else
                  (case getTrackRegion ArgSVal False of
                     None \<Rightarrow> Inr (Continue State)
                   | Some Region \<Rightarrow>
                     (case get_NullabilityMap State Region of
                        Some TrackedNullability \<Rightarrow>
                          if Nullness = IsNotNull \<or> getValue TrackedNullability \<noteq> Nullable
                          then Inr (Continue State)
                          else if CheckNullablePassedToNonnull Filter \<and>
                                  ParamNullability = Nonnull
                          then
                            (case generateSink State (Some ''NullablePassedToNonnull'') C of
                               (N, C1) \<Rightarrow>
                                 Inr (Return
                                        (reportBug NullablePassedToNonnull N (Some Region)
                                           (Some (Expr_Stmt AE)) C1)))
                          else if CheckNullableDereferenced Filter \<and>
                                  isReferenceType (Parm_getType Param)
                          then
                            (case generateSink State (Some ''NullableDereferenced'') C of
                               (N, C1) \<Rightarrow>
                                 Inr (Return
                                        (reportBug NullableDereferenced N (Some Region)
                                           (Some (Expr_Stmt AE)) C1)))
                          else Inr (Continue State)
                      | None \<Rightarrow>
                          if ArgStaticNullability \<noteq> Nullable then Inr (Continue State)
                          else
                            Inr (Continue
                                   (set_NullabilityMap State Region
                                      \<lparr>getValue = ArgStaticNullability,
                                       getNullabilitySource = Some (Expr_Stmt AE)\<rparr>)))))))"

text \<open>
  How the loop ends: the callback has returned from inside it, or the loop is left with
  the state it has built.
\<close>

datatype LoopExit = Returned CheckerContext | LoopDone ProgramState

fun checkPreCall_loop ::
  "NullabilityChecksFilter \<Rightarrow> CallEvent \<Rightarrow> CheckerContext \<Rightarrow> ParmVarDecl list \<Rightarrow> nat
     \<Rightarrow> ProgramState \<Rightarrow> CheckerError + LoopExit" where
  "checkPreCall_loop Filter Call C [] Idx State = Inr (LoopDone State)"
| "checkPreCall_loop Filter Call C (Param # Params) Idx State =
     (case checkPreCall_iteration Filter Call C Param Idx State of
        Inl e \<Rightarrow> Inl e
      | Inr Break \<Rightarrow> Inr (LoopDone State)
      | Inr (Continue State') \<Rightarrow> checkPreCall_loop Filter Call C Params (Idx + 1) State'
      | Inr (Return C') \<Rightarrow> Inr (Returned C'))"

definition checkPreCall ::
  "NullabilityChecksFilter \<Rightarrow> CallEvent \<Rightarrow> CheckerContext \<Rightarrow> CheckerError + CheckerContext" where
  "checkPreCall Filter Call C =
     (case Call_getDecl Call of
        None \<Rightarrow> Inr C
      | Some D \<Rightarrow>
        let State = getState C; OrigState = State in
        (case checkPreCall_loop Filter Call C (Call_parameters Call) 0 State of
           Inl e \<Rightarrow> Inl e
         | Inr (Returned C') \<Rightarrow> Inr C'
         | Inr (LoopDone State') \<Rightarrow>
             if State' \<noteq> OrigState then Inr (snd (addTransition State' None C)) else Inr C))"

text \<open>\<^verbatim>\<open>checkPostCall\<close>: suppress the warnings for the results of some functions.\<close>

definition checkPostCall :: "CallEvent \<Rightarrow> CheckerContext \<Rightarrow> CheckerContext" where
  "checkPostCall Call C =
     (case Call_getDecl Call of
        None \<Rightarrow> C
      | Some D \<Rightarrow>
        if Call_getKind Call = CE_ObjCMessage then C
        else
          (case Decl_FuncReturnType D of
             None \<Rightarrow> C
           | Some ReturnType \<Rightarrow>
             if \<not> isAnyPointerType ReturnType then C
             else
               (case getTrackRegion (Call_getReturnValue Call) False of
                  None \<Rightarrow> C
                | Some Region \<Rightarrow>
                  let State = getState C in
                  if prefix ''CG'' (Decl_FileName D) then
                    snd (addTransition
                           (set_NullabilityMap State Region
                              \<lparr>getValue = Contradicted, getNullabilitySource = None\<rparr>)
                           None C)
                  else if get_NullabilityMap State Region = None \<and>
                          getNullabilityAnnotation ReturnType = Nullable
                  then
                    snd (addTransition
                           (set_NullabilityMap State Region
                              \<lparr>getValue = Nullable, getNullabilitySource = None\<rparr>)
                           None C)
                  else C)))"

section \<open>Messages\<close>

datatype ObjCMessageKind = OCM_PropertyAccess | OCM_Subscript | OCM_Message

text \<open>
  The declaration of a method: its return type and the name of its class interface, if
  it has one.
\<close>

record ObjCMethodDecl =
  Method_getReturnType :: QualType
  Method_getClassInterface :: "string option"

record ObjCMethodCall =
  M_getDecl :: "ObjCMethodDecl option"
  M_getReturnValue :: SVal
  isReceiverSelfOrSuper :: bool
  getReceiverSVal :: SVal
  isInstanceMessage :: bool
  M_getNameForSlot0 :: string
  M_parameters :: "ParmVarDecl list"
  M_getOriginExpr :: Stmt
  M_getInstanceReceiver :: "Stmt option"
  M_getMessageKind :: ObjCMessageKind

definition getReceiverNullability :: "ObjCMethodCall \<Rightarrow> ProgramState \<Rightarrow> Nullability" where
  "getReceiverNullability M State =
     (if isReceiverSelfOrSuper M then Nonnull
      else
        let Receiver = getReceiverSVal M;
            RetNullability =
              (case getAs_MemRegionVal Receiver of
                 None \<Rightarrow> Unspecified
               | Some SelfRegion \<Rightarrow>
                   (case get_NullabilityMap State SelfRegion of
                      None \<Rightarrow> Unspecified
                    | Some TrackedSelfNullability \<Rightarrow> getValue TrackedSelfNullability))
        in
        (case getAs_DefinedOrUnknownSVal Receiver of
           None \<Rightarrow> RetNullability
         | Some DefOrUnknown \<Rightarrow>
             if getNullConstraint DefOrUnknown State = IsNotNull then Nonnull
             else RetNullability))"

text \<open>
  The heuristics for the Cocoa classes with the NS prefix: instance methods of
  dictionaries, \<^verbatim>\<open>firstObject\<close> and \<^verbatim>\<open>lastObject\<close> of arrays, and methods of strings
  with a parameter named \<^verbatim>\<open>encoding\<close>.
\<close>

definition isSuppressedMessage :: "ObjCMethodCall \<Rightarrow> string \<Rightarrow> bool" where
  "isSuppressedMessage M Name =
     (prefix ''NS'' Name \<and>
      ((isInstanceMessage M \<and> sublist ''Dictionary'' Name) \<or>
       (sublist ''Array'' Name \<and>
        (M_getNameForSlot0 M = ''firstObject'' \<or> M_getNameForSlot0 M = ''lastObject'')) \<or>
       (sublist ''String'' Name \<and>
        list_ex (\<lambda>Param. Parm_getName Param = ''encoding'') (M_parameters M))))"

definition checkPostObjCMessage :: "ObjCMethodCall \<Rightarrow> CheckerContext \<Rightarrow> CheckerContext" where
  "checkPostObjCMessage M C =
     (case M_getDecl M of
        None \<Rightarrow> C
      | Some D \<Rightarrow>
        let RetType = Method_getReturnType D in
        if \<not> isAnyPointerType RetType then C
        else
          (case getTrackRegion (M_getReturnValue M) False of
             None \<Rightarrow> C
           | Some ReturnRegion \<Rightarrow>
             let State = getState C;
                 Name = (case Method_getClassInterface D of Some n \<Rightarrow> n | None \<Rightarrow> [])
             in
             if isSuppressedMessage M Name then
               snd (addTransition
                      (set_NullabilityMap State ReturnRegion
                         \<lparr>getValue = Contradicted, getNullabilitySource = None\<rparr>)
                      None C)
             else
               let Message = M_getOriginExpr M;
                   SelfNullability = getReceiverNullability M State
               in
               (case get_NullabilityMap State ReturnRegion of
                  Some NullabilityOfReturn \<Rightarrow>
                    let RetValTracked = getValue NullabilityOfReturn;
                        ComputedNullab = getMostNullable RetValTracked SelfNullability
                    in
                    if ComputedNullab \<noteq> RetValTracked \<and> ComputedNullab \<noteq> Unspecified then
                      let NullabilitySource =
                            (if ComputedNullab = RetValTracked
                             then getNullabilitySource NullabilityOfReturn
                             else M_getInstanceReceiver M)
                      in
                      snd (addTransition
                             (set_NullabilityMap State ReturnRegion
                                \<lparr>getValue = ComputedNullab,
                                 getNullabilitySource = NullabilitySource\<rparr>)
                             None C)
                    else C
                | None \<Rightarrow>
                    let RetNullability0 = getNullabilityAnnotation RetType;
                        RetNullability =
                          (if M_getMessageKind M = OCM_PropertyAccess \<and> \<not> wasInlined C
                           then Nonnull else RetNullability0);
                        ComputedNullab = getMostNullable RetNullability SelfNullability
                    in
                    if ComputedNullab = Nullable then
                      let NullabilitySource =
                            (if ComputedNullab = RetNullability then Some Message
                             else M_getInstanceReceiver M)
                      in
                      snd (addTransition
                             (set_NullabilityMap State ReturnRegion
                                \<lparr>getValue = ComputedNullab,
                                 getNullabilitySource = NullabilitySource\<rparr>)
                             None C)
                    else C)))"

section \<open>Explicit casts\<close>

text \<open>
  An explicit cast as \<^verbatim>\<open>checkPostStmt\<close> sees it: the cast expression, the type of its
  subexpression, its own type, and the value the state gives the cast expression.
\<close>

record ExplicitCastExpr =
  CE_Stmt :: Stmt
  CE_OriginType :: QualType
  CE_DestType :: QualType
  CE_SVal :: SVal

definition checkPostStmt :: "ExplicitCastExpr \<Rightarrow> CheckerContext \<Rightarrow> CheckerError + CheckerContext"
  where
  "checkPostStmt CE C =
     (let OriginType = CE_OriginType CE; DestType = CE_DestType CE in
      if \<not> isAnyPointerType OriginType then Inr C
      else if \<not> isAnyPointerType DestType then Inr C
      else
        let DestNullability = getNullabilityAnnotation DestType in
        if DestNullability = Unspecified then Inr C
        else
          let State = getState C in
          (case getAs_DefinedOrUnknownSVal (CE_SVal CE) of
             None \<Rightarrow> Inl EmptyOptionalAccess
           | Some RegionSVal \<Rightarrow>
             (case getTrackRegion RegionSVal False of
                None \<Rightarrow> Inr C
              | Some Region \<Rightarrow>
                if DestNullability = Nonnull \<and> getNullConstraint RegionSVal State = IsNull
                then
                  Inr (snd (addTransition
                              (set_NullabilityMap State Region
                                 \<lparr>getValue = Contradicted, getNullabilitySource = None\<rparr>)
                              None C))
                else
                  (case get_NullabilityMap State Region of
                     None \<Rightarrow>
                       if DestNullability \<noteq> Nullable then Inr C
                       else
                         Inr (snd (addTransition
                                     (set_NullabilityMap State Region
                                        \<lparr>getValue = DestNullability,
                                         getNullabilitySource = Some (CE_Stmt CE)\<rparr>)
                                     None C))
                   | Some TrackedNullability \<Rightarrow>
                       if getValue TrackedNullability \<noteq> DestNullability \<and>
                          getValue TrackedNullability \<noteq> Contradicted
                       then
                         Inr (snd (addTransition
                                     (set_NullabilityMap State Region
                                        \<lparr>getValue = Contradicted,
                                         getNullabilitySource = None\<rparr>)
                                     None C))
                       else Inr C))))"

section \<open>Binds\<close>

definition checkBind ::
  "NullabilityChecksFilter \<Rightarrow> SVal \<Rightarrow> SVal \<Rightarrow> Stmt \<Rightarrow> CheckerContext \<Rightarrow> CheckerContext" where
  "checkBind Filter L V S C =
     (case (case getAsRegion L of None \<Rightarrow> None | Some R \<Rightarrow> dyn_cast_TypedValueRegion R) of
        None \<Rightarrow> C
      | Some LocType \<Rightarrow>
        if \<not> isAnyPointerType LocType then C
        else
          (case getAs_DefinedOrUnknownSVal V of
             None \<Rightarrow> C
           | Some ValDefOrUnknown \<Rightarrow>
             let State = getState C;
                 RhsNullness = getNullConstraint ValDefOrUnknown State;
                 ValNullability =
                   (case getAsSymbol ValDefOrUnknown of
                      Some Sym \<Rightarrow> getNullabilityAnnotation (SymExpr_getType Sym)
                    | None \<Rightarrow> Unspecified);
                 LocNullability = getNullabilityAnnotation LocType
             in
             if CheckNullPassedToNonnull Filter \<and> RhsNullness = IsNull \<and>
                ValNullability \<noteq> Nonnull \<and> LocNullability = Nonnull
             then
               (case addTransition State (Some ''NullPassedToNonnull'') C of
                  (N, C1) \<Rightarrow> reportBug NilAssignedToNonnull N None (Some S) C1)
             else
               (case getTrackRegion ValDefOrUnknown False of
                  None \<Rightarrow> C
                | Some ValueRegion \<Rightarrow>
                  (case get_NullabilityMap State ValueRegion of
                     Some TrackedNullability \<Rightarrow>
                       if RhsNullness = IsNotNull \<or> getValue TrackedNullability \<noteq> Nullable
                       then C
                       else if CheckNullablePassedToNonnull Filter \<and> LocNullability = Nonnull
                       then
                         (case addTransition State (Some ''NullablePassedToNonnull'') C of
                            (N, C1) \<Rightarrow>
                              reportBug NullableAssignedToNonnull N (Some ValueRegion) None C1)
                       else C
                   | None \<Rightarrow>
                       if ValNullability = Nullable then
                         let NullabilitySource =
                               (case S of BinaryOperator n LHS RHS \<Rightarrow> RHS | _ \<Rightarrow> S)
                         in
                         snd (addTransition
                                (set_NullabilityMap State ValueRegion
                                   \<lparr>getValue = ValNullability,
                                    getNullabilitySource = Some NullabilitySource\<rparr>)
                                None C)
                       else if LocNullability = Nullable then
                         let NullabilitySource =
                               (case S of BinaryOperator n LHS RHS \<Rightarrow> LHS | _ \<Rightarrow> S)
                         in
                         snd (addTransition
                                (set_NullabilityMap State ValueRegion
                                   \<lparr>getValue = LocNullability,
                                    getNullabilitySource = Some NullabilitySource\<rparr>)
                                None C)
                       else C))))"

section \<open>The callbacks as one step\<close>

text \<open>
  The events with a checker context, one per callback the checker registers for, and the
  callback each one runs.
\<close>

datatype Event =
    Bind SVal SVal Stmt
  | PreCall CallEvent
  | PreStmt_Return ReturnStmt
  | PostCall CallEvent
  | PostStmt_Cast ExplicitCastExpr
  | PostObjCMessage ObjCMethodCall
  | DeadSymbols "MemRegion \<Rightarrow> bool"

fun isDeadSymbols :: "Event \<Rightarrow> bool" where
  "isDeadSymbols (DeadSymbols SR) = True"
| "isDeadSymbols E = False"

fun runCallback ::
  "NullabilityChecksFilter \<Rightarrow> Event \<Rightarrow> CheckerContext \<Rightarrow> CheckerError + CheckerContext" where
  "runCallback Filter (Bind L V S) C = Inr (checkBind Filter L V S C)"
| "runCallback Filter (PreCall Call) C = checkPreCall Filter Call C"
| "runCallback Filter (PreStmt_Return S) C = Inr (checkPreStmt Filter S C)"
| "runCallback Filter (PostCall Call) C = Inr (checkPostCall Call C)"
| "runCallback Filter (PostStmt_Cast CE) C = checkPostStmt CE C"
| "runCallback Filter (PostObjCMessage M) C = Inr (checkPostObjCMessage M C)"
| "runCallback Filter (DeadSymbols SR) C = Inr (checkDeadSymbols SR C)"

section \<open>Paths and reachable states\<close>


text \<open>
  The states a path can reach: it starts with an empty map, a callback takes it to one of
  the successors of its context, and the engine may change what the constraint manager
  answers between two callbacks.
\<close>

inductive Reachable :: "NullabilityChecksFilter \<Rightarrow> ProgramState \<Rightarrow> bool"
  for Filter :: NullabilityChecksFilter where
  initial: "Reachable Filter \<lparr>isNull = solver, NullabilityMap = []\<rparr>"
| callback:
    "Reachable Filter S \<Longrightarrow> runCallback Filter ev (startContext S inlined) = Inr C'
     \<Longrightarrow> S' \<in> set (successors C') \<Longrightarrow> Reachable Filter S'"
| constraints: "Reachable Filter S \<Longrightarrow> Reachable Filter (S\<lparr>isNull := solver\<rparr>)"

text \<open>
  The updates of one entry that the callbacks make: the new value is Contradicted, or it
  is Nullable and the region was not tracked as Contradicted before.
\<close>

definition refinesEntry :: "ProgramState \<Rightarrow> MemRegion \<Rightarrow> NullabilityState \<Rightarrow> bool" where
  "refinesEntry State Region NS =
     (getValue NS = Contradicted \<or>
      (getValue NS = Nullable \<and>
       (case get_NullabilityMap State Region of
          None \<Rightarrow> True
        | Some Tracked \<Rightarrow> getValue Tracked \<noteq> Contradicted)))"

definition entryStep :: "ProgramState \<Rightarrow> ProgramState \<Rightarrow> bool" where
  "entryStep S S' =
     (S' = S \<or> (\<exists>R NS. S' = set_NullabilityMap S R NS \<and> refinesEntry S R NS))"

section \<open>Example inputs\<close>

definition exPointer :: QualType where
  "exPointer =
     \<lparr>isAnyPointerType = True, isReferenceType = False, getAsAttributedType = None\<rparr>"

definition exNonnullPointer :: QualType where
  "exNonnullPointer =
     \<lparr>isAnyPointerType = True, isReferenceType = False,
      getAsAttributedType = Some attr_nonnull\<rparr>"

definition exNullablePointer :: QualType where
  "exNullablePointer =
     \<lparr>isAnyPointerType = True, isReferenceType = False,
      getAsAttributedType = Some attr_nullable\<rparr>"

definition exRegion :: MemRegion where
  "exRegion = SymbolicRegion (SymExpr 0 exPointer)"

text \<open>All five checks enabled.\<close>

definition exFilter :: NullabilityChecksFilter where
  "exFilter =
     \<lparr>CheckNullPassedToNonnull = True, CheckNullReturnedFromNonnull = True,
      CheckNullableDereferenced = True, CheckNullablePassedToNonnull = True,
      CheckNullableReturnedFromNonnull = True\<rparr>"

text \<open>
  States in which nothing is constrained: with the example region tracked at a given
  value, and with an empty map.
\<close>

definition exState :: "Nullability \<Rightarrow> ProgramState" where
  "exState v =
     \<lparr>isNull = (\<lambda>V. None),
      NullabilityMap = [(exRegion, \<lparr>getValue = v, getNullabilitySource = None\<rparr>)]\<rparr>"

definition exEmptyState :: ProgramState where
  "exEmptyState = \<lparr>isNull = (\<lambda>V. None), NullabilityMap = []\<rparr>"

text \<open>
  The state with the example region tracked as Nullable with the cast \<open>PlainStmt 1\<close> as
  source, and a symbol reaper that reports no region live.
\<close>

definition exSeededState :: ProgramState where
  "exSeededState =
     \<lparr>isNull = (\<lambda>V. None),
      NullabilityMap =
        [(exRegion, \<lparr>getValue = Nullable, getNullabilitySource = Some (PlainStmt 1)\<rparr>)]\<rparr>"

definition exNoneLive :: "MemRegion \<Rightarrow> bool" where
  "exNoneLive R = False"

text \<open>An explicit cast of the example region's value to a pointer type \<open>T\<close>.\<close>

definition exCast :: "QualType \<Rightarrow> ExplicitCastExpr" where
  "exCast T =
     \<lparr>CE_Stmt = PlainStmt 1, CE_OriginType = exPointer, CE_DestType = T,
      CE_SVal = MemRegionVal exRegion\<rparr>"

text \<open>
  A parameter of type \<open>T\<close>, a callee declaration with return type \<open>T\<close> in a file
  whose name does not start with CG, and an argument expression of unannotated pointer
  type.
\<close>

definition exParam :: "QualType \<Rightarrow> ParmVarDecl" where
  "exParam T = \<lparr>isParameterPack = False, Parm_getType = T, Parm_getName = ''p''\<rparr>"

definition exDecl :: "QualType \<Rightarrow> Decl" where
  "exDecl T = \<lparr>Decl_FuncReturnType = Some T, Decl_FileName = ''nullability.mm''\<rparr>"

definition exArgExpr :: Expr where
  "exArgExpr = \<lparr>Expr_Stmt = PlainStmt 4, Expr_getType = exPointer\<rparr>"

text \<open>
  A call of a callee that declares one pointer parameter, with no argument: the engine
  has no argument expression at index 0 and answers the unknown value for it.
\<close>

definition exShortCall :: CallEvent where
  "exShortCall =
     \<lparr>Call_getDecl = Some (exDecl exPointer), Call_getKind = CE_Function,
      Call_parameters = [exParam exPointer], Call_getNumArgs = 0,
      Call_getArgExpr = (\<lambda>i. None), Call_getArgSVal = (\<lambda>i. UnknownVal),
      Call_getReturnValue = UnknownVal\<rparr>"

text \<open>A state with an empty map in which the solver proves every value null.\<close>

definition exNullState :: ProgramState where
  "exNullState = \<lparr>isNull = (\<lambda>V. Some True), NullabilityMap = []\<rparr>"

text \<open>
  The return of the null constant through an unannotated pointer expression, from a
  function whose return type is a pointer annotated Nonnull.
\<close>

definition exReturn :: ReturnStmt where
  "exReturn =
     \<lparr>Ret_Stmt = PlainStmt 2,
      getRetValue = Some \<lparr>Expr_Stmt = PlainStmt 3, Expr_getType = exPointer\<rparr>,
      Ret_SVal = ConcreteInt 0,
      Ret_FuncReturnType = Some exNonnullPointer\<rparr>"

text \<open>
  The example region tracked as Nullable, in a state in which the solver proves every
  value null.
\<close>

definition exNullTrackedState :: ProgramState where
  "exNullTrackedState =
     \<lparr>isNull = (\<lambda>V. Some True),
      NullabilityMap = [(exRegion, \<lparr>getValue = Nullable, getNullabilitySource = None\<rparr>)]\<rparr>"

text \<open>
  A call with one parameter of type \<open>T\<close> and one argument: an expression of
  unannotated pointer type whose value is the example region.
\<close>

definition exCall :: "QualType \<Rightarrow> CallEvent" where
  "exCall T =
     \<lparr>Call_getDecl = Some (exDecl exPointer), Call_getKind = CE_Function,
      Call_parameters = [exParam T], Call_getNumArgs = 1,
      Call_getArgExpr = (\<lambda>i. if i = 0 then Some exArgExpr else None),
      Call_getArgSVal = (\<lambda>i. if i = 0 then MemRegionVal exRegion else UnknownVal),
      Call_getReturnValue = UnknownVal\<rparr>"

text \<open>The location of a variable whose type is a pointer annotated Nonnull.\<close>

definition exNonnullVar :: SVal where
  "exNonnullVar = MemRegionVal (VarRegion 0 exNonnullPointer)"

text \<open>
  An instance message to \<^verbatim>\<open>self\<close> in a class named \<open>Name\<close>, whose result is the
  example region.
\<close>

definition exMessage :: "string \<Rightarrow> ObjCMethodCall" where
  "exMessage Name =
     \<lparr>M_getDecl = Some \<lparr>Method_getReturnType = exPointer,
                          Method_getClassInterface = Some Name\<rparr>,
      M_getReturnValue = MemRegionVal exRegion,
      isReceiverSelfOrSuper = True,
      getReceiverSVal = UnknownVal,
      isInstanceMessage = True,
      M_getNameForSlot0 = ''objectForKey'',
      M_parameters = [],
      M_getOriginExpr = PlainStmt 6,
      M_getInstanceReceiver = None,
      M_getMessageKind = OCM_Message\<rparr>"

text \<open>
  The scenario of a call that returns the example region with a return type annotated
  Nullable, and the bind of that value to a variable of an unannotated pointer type.
\<close>

definition exNullableReturningCall :: CallEvent where
  "exNullableReturningCall =
     \<lparr>Call_getDecl = Some (exDecl exNullablePointer), Call_getKind = CE_Function,
      Call_parameters = [], Call_getNumArgs = 0,
      Call_getArgExpr = (\<lambda>i. None), Call_getArgSVal = (\<lambda>i. UnknownVal),
      Call_getReturnValue = MemRegionVal exRegion\<rparr>"

definition exVar :: SVal where
  "exVar = MemRegionVal (VarRegion 1 exPointer)"

text \<open>
  The example region tracked as Contradicted, in a state in which the solver proves every
  value null.
\<close>

definition exNullContradictedState :: ProgramState where
  "exNullContradictedState =
     \<lparr>isNull = (\<lambda>V. Some True),
      NullabilityMap =
        [(exRegion, \<lparr>getValue = Contradicted, getNullabilitySource = None\<rparr>)]\<rparr>"

section \<open>Properties of the lattice\<close>

lemma getMostNullable_cases:
  "getMostNullable Contradicted b = Contradicted"
  "getMostNullable a Contradicted = Contradicted"
  "getMostNullable Nullable Nullable = Nullable"
  "getMostNullable Nullable Unspecified = Nullable"
  "getMostNullable Nullable Nonnull = Nullable"
  "getMostNullable Unspecified Nullable = Nullable"
  "getMostNullable Nonnull Nullable = Nullable"
  "getMostNullable Unspecified Unspecified = Unspecified"
  "getMostNullable Unspecified Nonnull = Unspecified"
  "getMostNullable Nonnull Unspecified = Unspecified"
  "getMostNullable Nonnull Nonnull = Nonnull"
  by (cases a; cases b;
      simp add: getMostNullable_def std_min_def Nullability_of_char_def word_sless_alt)+

lemma cast_of_min_defined:
  "Nullability_of_char (std_min (char_of_Nullability a) (char_of_Nullability b))
     = Some (if rank b < rank a then b else a)"
  by (cases a; cases b; simp add: std_min_def Nullability_of_char_def word_sless_alt)

text \<open>
  Claim C6. \<^verbatim>\<open>getMostNullable\<close> is total on the four values (the cast back from
  \<^verbatim>\<open>char\<close> always names an enumerator), it returns the minimum of its operands in the
  order Contradicted < Nullable < Unspecified < Nonnull, and so it is commutative,
  idempotent, and has Contradicted as absorbing element.
\<close>

theorem getMostNullable_is_order_min:
  "Nullability_of_char (std_min (char_of_Nullability a) (char_of_Nullability b))
     = Some (getMostNullable a b)
   \<and> getMostNullable a b = (if rank a \<le> rank b then a else b)
   \<and> rank (getMostNullable a b) = min (rank a) (rank b)
   \<and> getMostNullable a b = getMostNullable b a
   \<and> getMostNullable a a = a
   \<and> getMostNullable Contradicted a = Contradicted"
proof -
  have total: "Nullability_of_char (std_min (char_of_Nullability a) (char_of_Nullability b))
     = Some (getMostNullable a b)"
    unfolding getMostNullable_def cast_of_min_defined by simp
  have rest: "getMostNullable a b = (if rank a \<le> rank b then a else b)
   \<and> rank (getMostNullable a b) = min (rank a) (rank b)
   \<and> getMostNullable a b = getMostNullable b a
   \<and> getMostNullable a a = a
   \<and> getMostNullable Contradicted a = Contradicted"
    by (cases a; cases b; simp add: getMostNullable_cases)
  from total rest show ?thesis by blast
qed

section \<open>Facts about the state and the checker context\<close>

lemmas ex_defs = exPointer_def exNonnullPointer_def exNullablePointer_def exRegion_def
  exFilter_def exState_def exEmptyState_def exSeededState_def exNoneLive_def exCast_def exParam_def exDecl_def
  exArgExpr_def exShortCall_def
  exNullState_def exReturn_def exNullTrackedState_def exCall_def exNonnullVar_def
  exMessage_def
  exNullableReturningCall_def exVar_def
  exNullContradictedState_def

lemma get_set [simp]:
  "get_NullabilityMap (set_NullabilityMap S R NS) R' = (if R' = R then Some NS else get_NullabilityMap S R')"
  by (simp add: get_NullabilityMap_def set_NullabilityMap_def update_conv')

lemma successors_start [simp]: "successors (startContext S i) = [S]"
  by (simp add: successors_def startContext_def)

lemma successors_addTransition [simp]:
  "successors (snd (addTransition S' Tag (startContext S i))) = [S']"
  by (simp add: successors_def startContext_def addTransition_def Let_def)

lemma successors_report_transition [simp]:
  "successors (case addTransition S' Tag (startContext S i) of (N, C1) \<Rightarrow> reportBug E N R V C1) = [S']"
  by (simp add: successors_def startContext_def addTransition_def reportBug_def Let_def)

lemma successors_report_sink [simp]:
  "successors (case generateSink S' Tag (startContext S i) of (N, C1) \<Rightarrow> reportBug E N R V C1) = []"
  by (simp add: successors_def startContext_def generateSink_def reportBug_def Let_def)

lemma getMostNullable_tracked_update:
  "getMostNullable t s \<noteq> t \<Longrightarrow> getMostNullable t s \<noteq> Unspecified \<Longrightarrow>
   getMostNullable t s = Contradicted \<or> (getMostNullable t s = Nullable \<and> t \<noteq> Contradicted)"
  by (cases t; cases s; simp add: getMostNullable_cases)

lemma entryStep_refl: "entryStep S S"
  by (simp add: entryStep_def)

lemma entryStep_set: "refinesEntry S R NS \<Longrightarrow> entryStep S (set_NullabilityMap S R NS)"
  by (auto simp: entryStep_def)

lemma getState_start [simp]: "getState (startContext S i) = S"
  by (simp add: startContext_def)

lemma wasInlined_start [simp]: "wasInlined (startContext S i) = i"
  by (simp add: startContext_def)

lemma checkBind_step:
  assumes "S' \<in> set (successors (checkBind F L V St (startContext S i)))"
  shows "entryStep S S'"
  using assms
  by (auto simp: checkBind_def Let_def refinesEntry_def
      intro!: entryStep_refl entryStep_set
      split: option.splits if_splits)

lemma checkPreStmt_step:
  assumes "S' \<in> set (successors (checkPreStmt F St (startContext S i)))"
  shows "entryStep S S'"
  using assms
  by (auto simp: checkPreStmt_def Let_def refinesEntry_def
      intro!: entryStep_refl entryStep_set
      split: option.splits if_splits)

lemma checkPostCall_step:
  assumes "S' \<in> set (successors (checkPostCall Call (startContext S i)))"
  shows "entryStep S S'"
  using assms
  by (auto simp: checkPostCall_def Let_def refinesEntry_def
      intro!: entryStep_refl entryStep_set
      split: option.splits if_splits)

lemma checkPostStmt_step:
  assumes "checkPostStmt CE (startContext S i) = Inr C'" "S' \<in> set (successors C')"
  shows "entryStep S S'"
  using assms
  by (auto simp: checkPostStmt_def Let_def refinesEntry_def
      intro!: entryStep_refl entryStep_set
      split: option.splits if_splits)

lemma checkPostObjCMessage_step:
  assumes "S' \<in> set (successors (checkPostObjCMessage M (startContext S i)))"
  shows "entryStep S S'"
  using assms
  by (auto simp: checkPostObjCMessage_def Let_def refinesEntry_def
      intro!: entryStep_refl entryStep_set
      dest: getMostNullable_tracked_update
      split: option.splits if_splits)

lemma checkDeadSymbols_step:
  assumes "S' \<in> set (successors (checkDeadSymbols SR (startContext S i)))"
  shows "entryStep S S'"
  using assms
  by (auto simp: checkDeadSymbols_def Let_def intro!: entryStep_refl)

lemma iteration_Continue:
  assumes "checkPreCall_iteration F Call C Param Idx State = Inr (Continue State')"
  shows "entryStep State State'"
  using assms
  by (auto simp: checkPreCall_iteration_def Let_def generateSink_def refinesEntry_def
      intro!: entryStep_refl entryStep_set
      split: option.splits if_splits)

lemma iteration_Return:
  assumes "checkPreCall_iteration F Call (startContext S i) Param Idx State = Inr (Return C')"
  shows "successors C' = []"
  using assms
  by (auto simp: checkPreCall_iteration_def Let_def generateSink_def reportBug_def
        successors_def startContext_def
      split: option.splits if_splits)

lemma loop_done_preserves:
  assumes closed:
    "\<And>St R NS. P St \<Longrightarrow> refinesEntry St R NS \<Longrightarrow> P (set_NullabilityMap St R NS)"
  shows "P State \<Longrightarrow> checkPreCall_loop F Call C Params Idx State = Inr (LoopDone State')
         \<Longrightarrow> P State'"
proof (induction Params arbitrary: Idx State)
  case Nil
  then show ?case by simp
next
  case (Cons Param Params)
  show ?case
  proof (cases "checkPreCall_iteration F Call C Param Idx State")
    case (Inl e)
    with Cons.prems(2) show ?thesis by simp
  next
    case (Inr ex)
    show ?thesis
    proof (cases ex)
      case Break
      with Inr Cons.prems show ?thesis by simp
    next
      case (Continue State1)
      from iteration_Continue [OF Inr [unfolded Continue]] Cons.prems(1) closed
      have "P State1" by (auto simp: entryStep_def)
      moreover from Inr Continue Cons.prems(2)
      have "checkPreCall_loop F Call C Params (Idx + 1) State1 = Inr (LoopDone State')"
        by simp
      ultimately show ?thesis by (rule Cons.IH)
    next
      case (Return C1)
      with Inr Cons.prems(2) show ?thesis by simp
    qed
  qed
qed

lemma loop_returned_sink:
  "checkPreCall_loop F Call (startContext S i) Params Idx State = Inr (Returned C')
   \<Longrightarrow> successors C' = []"
proof (induction Params arbitrary: Idx State)
  case Nil
  then show ?case by simp
next
  case (Cons Param Params)
  show ?case
  proof (cases "checkPreCall_iteration F Call (startContext S i) Param Idx State")
    case (Inl e)
    with Cons.prems show ?thesis by simp
  next
    case (Inr ex)
    show ?thesis
    proof (cases ex)
      case Break
      with Inr Cons.prems show ?thesis by simp
    next
      case (Continue State1)
      with Inr Cons.prems
      have "checkPreCall_loop F Call (startContext S i) Params (Idx + 1) State1
              = Inr (Returned C')"
        by simp
      then show ?thesis by (rule Cons.IH)
    next
      case (Return C1)
      with Inr Cons.prems have "C1 = C'" by simp
      with iteration_Return Inr Return show ?thesis by blast
    qed
  qed
qed

lemma checkPreCall_preserves:
  assumes closed:
    "\<And>St R NS. P St \<Longrightarrow> refinesEntry St R NS \<Longrightarrow> P (set_NullabilityMap St R NS)"
    and "P S" and "checkPreCall F Call (startContext S i) = Inr C'"
    and "S' \<in> set (successors C')"
  shows "P S'"
proof (cases "Call_getDecl Call")
  case None
  with assms(2-4) show ?thesis by (auto simp: checkPreCall_def)
next
  case (Some D)
  show ?thesis
  proof (cases "checkPreCall_loop F Call (startContext S i) (Call_parameters Call) 0 S")
    case (Inl e)
    with Some assms(3) show ?thesis by (simp add: checkPreCall_def)
  next
    case (Inr ex)
    show ?thesis
    proof (cases ex)
      case (Returned C1)
      with Inr Some assms(3) have "C' = C1" by (simp add: checkPreCall_def)
      with loop_returned_sink Inr Returned assms(4) show ?thesis by fastforce
    next
      case (LoopDone State')
      have "P State'"
        using loop_done_preserves [of P, OF closed assms(2)] Inr LoopDone by blast
      with Inr Some LoopDone assms(2-4) show ?thesis
        by (auto simp: checkPreCall_def split: if_splits)
    qed
  qed
qed

lemma entryStep_preserves:
  assumes closed:
    "\<And>St R NS. P St \<Longrightarrow> refinesEntry St R NS \<Longrightarrow> P (set_NullabilityMap St R NS)"
    and "P S" and "entryStep S S'"
  shows "P S'"
  using assms by (auto simp: entryStep_def)

lemma runCallback_preserves:
  assumes closed:
    "\<And>St R NS. P St \<Longrightarrow> refinesEntry St R NS \<Longrightarrow> P (set_NullabilityMap St R NS)"
    and "P S" and "runCallback F ev (startContext S i) = Inr C'"
    and "S' \<in> set (successors C')"
  shows "P S'"
proof (cases ev)
  case (Bind L V St)
  with assms(3,4) have "entryStep S S'" by (auto dest: checkBind_step)
  with closed assms(2) show ?thesis by (rule entryStep_preserves [of P])
next
  case (PreCall Call)
  with assms(3) have "checkPreCall F Call (startContext S i) = Inr C'" by simp
  with closed assms(2) show ?thesis using assms(4) by (rule checkPreCall_preserves [of P])
next
  case (PreStmt_Return St)
  with assms(3,4) have "entryStep S S'" by (auto dest: checkPreStmt_step)
  with closed assms(2) show ?thesis by (rule entryStep_preserves [of P])
next
  case (PostCall Call)
  with assms(3,4) have "entryStep S S'" by (auto dest: checkPostCall_step)
  with closed assms(2) show ?thesis by (rule entryStep_preserves [of P])
next
  case (PostStmt_Cast CE)
  with assms(3,4) have "entryStep S S'" by (auto dest: checkPostStmt_step)
  with closed assms(2) show ?thesis by (rule entryStep_preserves [of P])
next
  case (PostObjCMessage M)
  with assms(3,4) have "entryStep S S'" by (auto dest: checkPostObjCMessage_step)
  with closed assms(2) show ?thesis by (rule entryStep_preserves [of P])
next
  case (DeadSymbols SR)
  with assms(3,4) have "entryStep S S'" by (auto dest: checkDeadSymbols_step)
  with closed assms(2) show ?thesis by (rule entryStep_preserves [of P])
qed

lemma set_update_cases:
  "e \<in> set (AList.update k v al) \<Longrightarrow> e = (k, v) \<or> e \<in> set al"
  by (induction al) (auto split: if_splits)

section \<open>The liveness sweep\<close>

text \<open>
  Claim C1 says that after the sweep no dead region has an entry in the state of the
  path. At the state that tracks the example region as Nullable, with a symbol reaper that
  reports no region live: the state the loop computes has no entry for the region, but the
  callback adds no node, so the path goes on from the state it came with, where the region
  is still tracked.
\<close>

theorem checkDeadSymbols_keeps_dead_entry:
  "get_NullabilityMap
     (removeDeadRegions exNoneLive (NullabilityMap (exState Nullable)) (exState Nullable))
     exRegion = None
   \<and> successors (checkDeadSymbols exNoneLive (startContext (exState Nullable) False))
       = [exState Nullable]
   \<and> get_NullabilityMap (exState Nullable) exRegion
       = Some \<lparr>getValue = Nullable, getNullabilitySource = None\<rparr>"
  by (simp add: removeDeadRegions_def checkDeadSymbols_def
      get_NullabilityMap_def remove_NullabilityMap_def ex_defs)

section \<open>Contradicted is absorbing\<close>

text \<open>
  Claim C3. Every callback that updates the state (bind, pre-call, post-call, return,
  explicit cast, message) keeps a region that is tracked as Contradicted tracked as
  Contradicted, in every state from which the path goes on.
\<close>

theorem contradicted_is_absorbing:
  assumes "\<not> isDeadSymbols ev"
    and "map_option getValue (get_NullabilityMap S R) = Some Contradicted"
    and "runCallback Filter ev (startContext S inlined) = Inr C'"
    and "S' \<in> set (successors C')"
  shows "map_option getValue (get_NullabilityMap S' R) = Some Contradicted"
proof -
  let ?P = "\<lambda>St. map_option getValue (get_NullabilityMap St R) = Some Contradicted"
  have closed: "?P (set_NullabilityMap St R' NS)" if "?P St" "refinesEntry St R' NS" for St R' NS
    using that by (auto simp: refinesEntry_def split: option.splits)
  from closed assms(2-4) show ?thesis by (rule runCallback_preserves [of ?P])
qed

theorem contradicted_is_absorbing_witness:
  "\<not> isDeadSymbols (PostStmt_Cast (exCast exNullablePointer))
   \<and> map_option getValue (get_NullabilityMap (exState Contradicted) exRegion) = Some Contradicted
   \<and> runCallback exFilter (PostStmt_Cast (exCast exNullablePointer))
        (startContext (exState Contradicted) False) = Inr (startContext (exState Contradicted) False)
   \<and> exState Contradicted \<in> set (successors (startContext (exState Contradicted) False))
   \<and> map_option getValue (get_NullabilityMap (exState Contradicted) exRegion) = Some Contradicted"
  using contradicted_is_absorbing [of "PostStmt_Cast (exCast exNullablePointer)"
      "exState Contradicted" exRegion exFilter False "startContext (exState Contradicted) False"
      "exState Contradicted"]
  by (simp add: ex_defs checkPostStmt_def getNullabilityAnnotation_def getTrackRegion_def
      get_NullabilityMap_def getNullConstraint_def Let_def)

section \<open>Sparsity of the map\<close>

text \<open>
  Claim C4. In every reachable state every entry of the map is Nullable or Contradicted:
  no callback stores Unspecified or Nonnull.
\<close>

theorem sparsity_invariant:
  assumes "Reachable Filter S" and "(R, NS) \<in> set (NullabilityMap S)"
  shows "getValue NS = Nullable \<or> getValue NS = Contradicted"
proof -
  let ?P = "\<lambda>St. \<forall>e \<in> set (NullabilityMap St). getValue (snd e) = Nullable \<or> getValue (snd e) = Contradicted"
  have closed: "?P (set_NullabilityMap St R' NS')" if "?P St" "refinesEntry St R' NS'"
    for St R' NS'
    using that by (auto simp: refinesEntry_def set_NullabilityMap_def dest!: set_update_cases)
  from assms(1) have "?P S"
  proof (induction rule: Reachable.induct)
    case (initial solver)
    show ?case by simp
  next
    case (callback S ev inlined C' S')
    from closed callback.IH callback.hyps(2,3) show ?case
      by (rule runCallback_preserves [of ?P])
  next
    case (constraints S solver)
    then show ?case by simp
  qed
  with assms(2) show ?thesis by fastforce
qed

theorem sparsity_invariant_witness:
  "Reachable exFilter exSeededState
   \<and> (exRegion, \<lparr>getValue = Nullable, getNullabilitySource = Some (PlainStmt 1)\<rparr>)
       \<in> set (NullabilityMap exSeededState)
   \<and> (getValue \<lparr>getValue = Nullable, getNullabilitySource = Some (PlainStmt 1)\<rparr> = Nullable
      \<or> getValue \<lparr>getValue = Nullable, getNullabilitySource = Some (PlainStmt 1)\<rparr>
          = Contradicted)"
proof -
  have r0: "Reachable exFilter exEmptyState"
    unfolding exEmptyState_def by (rule Reachable.initial)
  have run: "runCallback exFilter (PostStmt_Cast (exCast exNullablePointer))
               (startContext exEmptyState False)
             = Inr (snd (addTransition exSeededState None (startContext exEmptyState False)))"
    by (simp add: ex_defs checkPostStmt_def getNullabilityAnnotation_def getTrackRegion_def
        get_NullabilityMap_def set_NullabilityMap_def getNullConstraint_def Let_def)
  have r1: "Reachable exFilter exSeededState"
    by (rule Reachable.callback [OF r0 run]) simp
  have entry: "(exRegion, \<lparr>getValue = Nullable, getNullabilitySource = Some (PlainStmt 1)\<rparr>)
       \<in> set (NullabilityMap exSeededState)"
    by (simp add: exSeededState_def)
  from r1 entry sparsity_invariant [OF r1 entry]
  show ?thesis by simp
qed

section \<open>Arguments of a call\<close>

text \<open>
  Claim C10 says that the argument expression is never null where its type is read. For
  the call with one declared pointer parameter and no argument, the argument expression
  stays null (the index is not below the number of arguments), the engine's value for the
  index is the unknown value, the parameter has pointer type, and the callback reads the
  type of the null argument expression.
\<close>

theorem checkPreCall_missing_argument_null_dereference:
  "checkPreCall exFilter exShortCall (startContext exEmptyState False)
     = Inl NullPointerDereference"
  by (simp add: checkPreCall_def checkPreCall_iteration_def ex_defs Let_def)

section \<open>Null returned from a function with a Nonnull return type\<close>

text \<open>
  Claim C2 says that the null-returned-to-nonnull report is fatal for the path. With all
  checks enabled, for a return of a value that is proven null from a function whose return
  type is annotated Nonnull: the report is emitted, its node and the only node added are
  not sinks, and the path goes on from the unchanged state.
\<close>

theorem checkPreStmt_null_return_continues:
  "map Report_Error (Reports (checkPreStmt exFilter exReturn (startContext exNullState False)))
     = [NilReturnedToNonnull]
   \<and> map (isSink \<circ> Report_ErrorNode)
         (Reports (checkPreStmt exFilter exReturn (startContext exNullState False)))
     = [False]
   \<and> map isSink (Nodes (checkPreStmt exFilter exReturn (startContext exNullState False)))
     = [False]
   \<and> successors (checkPreStmt exFilter exReturn (startContext exNullState False))
     = [exNullState]"
  by (simp add: checkPreStmt_def ex_defs getNullConstraint_def getNullabilityAnnotation_def
      addTransition_def reportBug_def makeBugReport_def startContext_def successors_def Let_def)

text \<open>
  Claim C2, amended. With the check for null returned from nonnull enabled, for a return
  statement with a pointer-typed returned expression whose value is proven null, in a
  function whose return type is annotated Nonnull: the callback emits exactly one report,
  null-returned-to-nonnull, citing the return statement, at a node added with
  \<^verbatim>\<open>addTransition\<close> (tagged, not a sink), and the path goes on from the unchanged state.
\<close>

theorem checkPreStmt_null_returned_to_nonnull:
  assumes "CheckNullReturnedFromNonnull Filter"
    and "getRetValue S = Some RetExpr"
    and "isAnyPointerType (Expr_getType RetExpr)"
    and "getAs_DefinedOrUnknownSVal (Ret_SVal S) = Some RetSVal"
    and "Ret_FuncReturnType S = Some ReturnType"
    and "getNullabilityAnnotation ReturnType = Nonnull"
    and "getNullConstraint RetSVal State = IsNull"
  shows "checkPreStmt Filter S (startContext State inlined) =
           \<lparr>getState = State, wasInlined = inlined,
            Nodes = [\<lparr>Node_getState = State, Node_Tag = Some ''NullReturnedFromNonnull'',
                      isSink = False\<rparr>],
            Reports = [makeBugReport NilReturnedToNonnull
                         \<lparr>Node_getState = State, Node_Tag = Some ''NullReturnedFromNonnull'',
                          isSink = False\<rparr>
                         None (Some (Ret_Stmt S))]\<rparr>
         \<and> successors (checkPreStmt Filter S (startContext State inlined)) = [State]"
  using assms
  by (simp add: checkPreStmt_def addTransition_def reportBug_def startContext_def
      successors_def Let_def)

theorem checkPreStmt_null_returned_to_nonnull_witness:
  "CheckNullReturnedFromNonnull exFilter
   \<and> getRetValue exReturn = Some \<lparr>Expr_Stmt = PlainStmt 3, Expr_getType = exPointer\<rparr>
   \<and> isAnyPointerType (Expr_getType \<lparr>Expr_Stmt = PlainStmt 3, Expr_getType = exPointer\<rparr>)
   \<and> getAs_DefinedOrUnknownSVal (Ret_SVal exReturn) = Some (ConcreteInt 0)
   \<and> Ret_FuncReturnType exReturn = Some exNonnullPointer
   \<and> getNullabilityAnnotation exNonnullPointer = Nonnull
   \<and> getNullConstraint (ConcreteInt 0) exNullState = IsNull
   \<and> Reports (checkPreStmt exFilter exReturn (startContext exNullState False)) =
        [makeBugReport NilReturnedToNonnull
           \<lparr>Node_getState = exNullState, Node_Tag = Some ''NullReturnedFromNonnull'',
            isSink = False\<rparr>
           None (Some (PlainStmt 2))]
   \<and> successors (checkPreStmt exFilter exReturn (startContext exNullState False))
        = [exNullState]"
  using checkPreStmt_null_returned_to_nonnull [of exFilter exReturn
      "\<lparr>Expr_Stmt = PlainStmt 3, Expr_getType = exPointer\<rparr>" "ConcreteInt 0"
      exNonnullPointer exNullState False]
  by (simp add: ex_defs getNullConstraint_def getNullabilityAnnotation_def successors_def)

section \<open>Nullable arguments\<close>

text \<open>
  Claim C5 says that a tracked Nullable argument that is not proven non-null, passed for
  a Nonnull parameter, is reported as nullable-passed-to-nonnull. With all checks enabled
  and the argument proven null, the report is null-passed-to-nonnull instead; with the
  check for nullable passed to nonnull disabled and nothing known of the argument, the
  callback reports nothing and adds no node.
\<close>

theorem checkPreCall_tracked_nullable_other_outcomes:
  "map_sum id (map Report_Error \<circ> Reports)
      (checkPreCall exFilter (exCall exNonnullPointer) (startContext exNullTrackedState False))
     = Inr [NilPassedToNonnull]
   \<and> checkPreCall (exFilter\<lparr>CheckNullablePassedToNonnull := False\<rparr>)
        (exCall exNonnullPointer) (startContext (exState Nullable) False)
     = Inr (startContext (exState Nullable) False)"
  by (simp add: checkPreCall_def checkPreCall_iteration_def ex_defs Let_def
      getNullConstraint_def getNullabilityAnnotation_def getTrackRegion_def
      get_NullabilityMap_def generateSink_def reportBug_def makeBugReport_def startContext_def)

text \<open>
  Claim C5, amended. When the parameter loop comes to a pointer- or reference-typed
  parameter whose argument expression exists and whose argument value resolves to a region
  tracked as Nullable: if the solver has proven the argument non-null, the loop goes on to
  the next parameter with the state unchanged and no report; otherwise, unless the
  null-passed-to-nonnull rule fires first (check enabled, argument proven null, argument
  type not annotated Nonnull, parameter Nonnull), it reports nullable-passed-to-nonnull at
  a sink when that check is enabled and the parameter is Nonnull, else
  nullable-dereferenced at a sink when that check is enabled and the parameter has
  reference type, else it goes on to the next parameter. Each of the reports ends the
  callback at a sink, from which the path has no successor.
\<close>

theorem checkPreCall_tracked_nullable_argument:
  fixes State :: ProgramState and S :: ProgramState and AE :: Expr and inlined :: bool
  defines "sink Tag \<equiv> \<lparr>Node_getState = State, Node_Tag = Some Tag, isSink = True\<rparr>"
  defines "halted Tag Error R \<equiv>
     \<lparr>getState = S, wasInlined = inlined, Nodes = [sink Tag],
      Reports = [makeBugReport Error (sink Tag) R (Some (Expr_Stmt AE))]\<rparr>"
  assumes "\<not> isParameterPack Param"
    and "Idx < Call_getNumArgs Call"
    and "Call_getArgExpr Call Idx = Some AE"
    and "getAs_DefinedOrUnknownSVal (Call_getArgSVal Call Idx) = Some ArgSVal"
    and "isAnyPointerType (Parm_getType Param) \<or> isReferenceType (Parm_getType Param)"
    and "getTrackRegion ArgSVal False = Some Region"
    and "map_option getValue (get_NullabilityMap State Region) = Some Nullable"
  shows "checkPreCall_loop Filter Call (startContext S inlined) (Param # Params) Idx State =
           (if getNullConstraint ArgSVal State = IsNotNull
            then checkPreCall_loop Filter Call (startContext S inlined) Params (Idx + 1) State
            else if CheckNullPassedToNonnull Filter \<and> getNullConstraint ArgSVal State = IsNull \<and>
                    getNullabilityAnnotation (Expr_getType AE) \<noteq> Nonnull \<and>
                    getNullabilityAnnotation (Parm_getType Param) = Nonnull
            then Inr (Returned (halted ''NullPassedToNonnull'' NilPassedToNonnull None))
            else if CheckNullablePassedToNonnull Filter \<and>
                    getNullabilityAnnotation (Parm_getType Param) = Nonnull
            then Inr (Returned
                        (halted ''NullablePassedToNonnull'' NullablePassedToNonnull (Some Region)))
            else if CheckNullableDereferenced Filter \<and> isReferenceType (Parm_getType Param)
            then Inr (Returned
                        (halted ''NullableDereferenced'' NullableDereferenced (Some Region)))
            else checkPreCall_loop Filter Call (startContext S inlined) Params (Idx + 1) State)
         \<and> successors (halted Tag Error R) = []"
proof -
  from assms(9) obtain Tracked where tracked:
    "get_NullabilityMap State Region = Some Tracked" "getValue Tracked = Nullable"
    by (cases "get_NullabilityMap State Region") auto
  have sinks: "successors (halted Tag Error R) = []"
    by (simp add: halted_def sink_def successors_def)
  have step: "checkPreCall_iteration Filter Call (startContext S inlined) Param Idx State =
           (if getNullConstraint ArgSVal State = IsNotNull then Inr (Continue State)
            else if CheckNullPassedToNonnull Filter \<and> getNullConstraint ArgSVal State = IsNull \<and>
                    getNullabilityAnnotation (Expr_getType AE) \<noteq> Nonnull \<and>
                    getNullabilityAnnotation (Parm_getType Param) = Nonnull
            then Inr (Return (halted ''NullPassedToNonnull'' NilPassedToNonnull None))
            else if CheckNullablePassedToNonnull Filter \<and>
                    getNullabilityAnnotation (Parm_getType Param) = Nonnull
            then Inr (Return
                        (halted ''NullablePassedToNonnull'' NullablePassedToNonnull (Some Region)))
            else if CheckNullableDereferenced Filter \<and> isReferenceType (Parm_getType Param)
            then Inr (Return
                        (halted ''NullableDereferenced'' NullableDereferenced (Some Region)))
            else Inr (Continue State))"
    using assms(3-8) tracked
    apply (simp add: checkPreCall_iteration_def Let_def generateSink_def reportBug_def
        startContext_def halted_def sink_def)
    apply blast
    done
  show ?thesis
    unfolding checkPreCall_loop.simps step using sinks by auto
qed

theorem checkPreCall_tracked_nullable_argument_witness:
  "\<not> isParameterPack (exParam exNonnullPointer)
   \<and> 0 < Call_getNumArgs (exCall exNonnullPointer)
   \<and> Call_getArgExpr (exCall exNonnullPointer) 0 = Some exArgExpr
   \<and> getAs_DefinedOrUnknownSVal (Call_getArgSVal (exCall exNonnullPointer) 0)
       = Some (MemRegionVal exRegion)
   \<and> (isAnyPointerType (Parm_getType (exParam exNonnullPointer))
      \<or> isReferenceType (Parm_getType (exParam exNonnullPointer)))
   \<and> getTrackRegion (MemRegionVal exRegion) False = Some exRegion
   \<and> map_option getValue (get_NullabilityMap (exState Nullable) exRegion) = Some Nullable
   \<and> checkPreCall_loop exFilter (exCall exNonnullPointer)
        (startContext (exState Nullable) False) [exParam exNonnullPointer] 0 (exState Nullable)
       = Inr (Returned
           \<lparr>getState = exState Nullable, wasInlined = False,
            Nodes = [\<lparr>Node_getState = exState Nullable,
                      Node_Tag = Some ''NullablePassedToNonnull'', isSink = True\<rparr>],
            Reports = [makeBugReport NullablePassedToNonnull
                         \<lparr>Node_getState = exState Nullable,
                          Node_Tag = Some ''NullablePassedToNonnull'', isSink = True\<rparr>
                         (Some exRegion) (Some (PlainStmt 4))]\<rparr>)
   \<and> successors
        \<lparr>getState = exState Nullable, wasInlined = False,
         Nodes = [\<lparr>Node_getState = exState Nullable,
                   Node_Tag = Some ''NullablePassedToNonnull'', isSink = True\<rparr>],
         Reports = [makeBugReport NullablePassedToNonnull
                      \<lparr>Node_getState = exState Nullable,
                       Node_Tag = Some ''NullablePassedToNonnull'', isSink = True\<rparr>
                      (Some exRegion) (Some (PlainStmt 4))]\<rparr> = []"
proof -
  have hyps:
    "\<not> isParameterPack (exParam exNonnullPointer)"
    "0 < Call_getNumArgs (exCall exNonnullPointer)"
    "Call_getArgExpr (exCall exNonnullPointer) 0 = Some exArgExpr"
    "getAs_DefinedOrUnknownSVal (Call_getArgSVal (exCall exNonnullPointer) 0)
       = Some (MemRegionVal exRegion)"
    "isAnyPointerType (Parm_getType (exParam exNonnullPointer))
      \<or> isReferenceType (Parm_getType (exParam exNonnullPointer))"
    "getTrackRegion (MemRegionVal exRegion) False = Some exRegion"
    "map_option getValue (get_NullabilityMap (exState Nullable) exRegion) = Some Nullable"
    by (simp_all add: ex_defs getTrackRegion_def get_NullabilityMap_def)
  have vals:
    "getNullConstraint (MemRegionVal exRegion) (exState Nullable) = Unknown"
    "getNullabilityAnnotation (Parm_getType (exParam exNonnullPointer)) = Nonnull"
    "CheckNullablePassedToNonnull exFilter"
    "Expr_Stmt exArgExpr = PlainStmt 4"
    by (simp_all add: ex_defs getNullConstraint_def getNullabilityAnnotation_def)
  from checkPreCall_tracked_nullable_argument [OF hyps, of exFilter "exState Nullable" False "[]"
      "''NullablePassedToNonnull''" NullablePassedToNonnull "Some exRegion"]
  show ?thesis using hyps by (simp add: vals)
qed

section \<open>Null assigned to a Nonnull location\<close>

text \<open>
  Claim C7 says that every bind of a proven-null value to a Nonnull location is reported.
  With the check for null passed to nonnull disabled (the one the bind rule consults), the
  bind of the null constant to a variable of Nonnull pointer type is not reported.
\<close>

theorem checkBind_null_assigned_check_disabled:
  "getNullConstraint (ConcreteInt 0) exNullState = IsNull
   \<and> checkBind (exFilter\<lparr>CheckNullPassedToNonnull := False\<rparr>) exNonnullVar (ConcreteInt 0)
        (PlainStmt 5) (startContext exNullState False)
     = startContext exNullState False
   \<and> Reports (startContext exNullState False) = []"
  by (simp add: checkBind_def ex_defs exNonnullVar_def Let_def getNullConstraint_def
      getNullabilityAnnotation_def getTrackRegion_def startContext_def)

text \<open>
  Claim C7, amended. With the check for null passed to nonnull enabled, for a bind to a
  typed value region of pointer type annotated Nonnull, of a value that is proven null and
  whose own static annotation is not Nonnull: the callback emits exactly one report,
  null-assigned-to-nonnull, citing the statement of the bind, at a node added with
  \<^verbatim>\<open>addTransition\<close> (not a sink), and the path goes on from the unchanged state.
\<close>

theorem checkBind_null_assigned_to_nonnull:
  assumes "CheckNullPassedToNonnull Filter"
    and "getAsRegion L = Some LR"
    and "dyn_cast_TypedValueRegion LR = Some LocType"
    and "isAnyPointerType LocType"
    and "getNullabilityAnnotation LocType = Nonnull"
    and "getAs_DefinedOrUnknownSVal V = Some Val"
    and "getNullConstraint Val State = IsNull"
    and "(case getAsSymbol Val of
            Some Sym \<Rightarrow> getNullabilityAnnotation (SymExpr_getType Sym)
          | None \<Rightarrow> Unspecified) \<noteq> Nonnull"
  shows "checkBind Filter L V S (startContext State inlined) =
           \<lparr>getState = State, wasInlined = inlined,
            Nodes = [\<lparr>Node_getState = State, Node_Tag = Some ''NullPassedToNonnull'',
                      isSink = False\<rparr>],
            Reports = [makeBugReport NilAssignedToNonnull
                         \<lparr>Node_getState = State, Node_Tag = Some ''NullPassedToNonnull'',
                          isSink = False\<rparr>
                         None (Some S)]\<rparr>
         \<and> successors (checkBind Filter L V S (startContext State inlined)) = [State]"
  using assms
  by (simp add: checkBind_def addTransition_def reportBug_def startContext_def
      successors_def Let_def)

theorem checkBind_null_assigned_to_nonnull_witness:
  "CheckNullPassedToNonnull exFilter
   \<and> getAsRegion exNonnullVar = Some (VarRegion 0 exNonnullPointer)
   \<and> dyn_cast_TypedValueRegion (VarRegion 0 exNonnullPointer) = Some exNonnullPointer
   \<and> isAnyPointerType exNonnullPointer
   \<and> getNullabilityAnnotation exNonnullPointer = Nonnull
   \<and> getAs_DefinedOrUnknownSVal (ConcreteInt 0) = Some (ConcreteInt 0)
   \<and> getNullConstraint (ConcreteInt 0) exNullState = IsNull
   \<and> (case getAsSymbol (ConcreteInt 0) of
         Some Sym \<Rightarrow> getNullabilityAnnotation (SymExpr_getType Sym)
       | None \<Rightarrow> Unspecified) \<noteq> Nonnull
   \<and> Reports (checkBind exFilter exNonnullVar (ConcreteInt 0) (PlainStmt 5)
                (startContext exNullState False))
       = [makeBugReport NilAssignedToNonnull
            \<lparr>Node_getState = exNullState, Node_Tag = Some ''NullPassedToNonnull'',
             isSink = False\<rparr>
            None (Some (PlainStmt 5))]
   \<and> successors (checkBind exFilter exNonnullVar (ConcreteInt 0) (PlainStmt 5)
                   (startContext exNullState False))
       = [exNullState]"
proof -
  have hyps:
    "CheckNullPassedToNonnull exFilter"
    "getAsRegion exNonnullVar = Some (VarRegion 0 exNonnullPointer)"
    "dyn_cast_TypedValueRegion (VarRegion 0 exNonnullPointer) = Some exNonnullPointer"
    "isAnyPointerType exNonnullPointer"
    "getNullabilityAnnotation exNonnullPointer = Nonnull"
    "getAs_DefinedOrUnknownSVal (ConcreteInt 0) = Some (ConcreteInt 0)"
    "getNullConstraint (ConcreteInt 0) exNullState = IsNull"
    "(case getAsSymbol (ConcreteInt 0) of
         Some Sym \<Rightarrow> getNullabilityAnnotation (SymExpr_getType Sym)
       | None \<Rightarrow> Unspecified) \<noteq> Nonnull"
    by (simp_all add: ex_defs exNonnullVar_def getNullConstraint_def
        getNullabilityAnnotation_def)
  from checkBind_null_assigned_to_nonnull [OF hyps, of "PlainStmt 5" False]
  show ?thesis using hyps by (simp add: successors_def)
qed

section \<open>The result of a message\<close>

text \<open>
  Claim C9 says that for every message whose return region is tracked the result is the
  merge of the tracked value and the receiver's nullability. For an instance message to
  \<^verbatim>\<open>self\<close> in the class NSDictionary, with the return region tracked as Nullable: the
  merge of Nullable with the receiver's Nonnull is Nullable, but the dictionary heuristic
  comes first and the region is tracked as Contradicted afterwards.
\<close>

theorem checkPostObjCMessage_dictionary_overrides_merge:
  "getMostNullable Nullable
      (getReceiverNullability (exMessage ''NSDictionary'') (exState Nullable)) = Nullable
   \<and> successors (checkPostObjCMessage (exMessage ''NSDictionary'')
                   (startContext (exState Nullable) False))
       = [exState Contradicted]
   \<and> map_option getValue (get_NullabilityMap (exState Contradicted) exRegion)
       = Some Contradicted"
  by (simp add: checkPostObjCMessage_def isSuppressedMessage_def getReceiverNullability_def
      getMostNullable_cases getTrackRegion_def get_NullabilityMap_def set_NullabilityMap_def
      sublist_code ex_defs Let_def)

text \<open>
  Claim C9, amended. For a message with a method declaration whose return type is a
  pointer, that none of the heuristics for the NS classes suppresses, and whose return
  region is tracked (as Nullable or Contradicted, as in every reachable state): the
  callback reports nothing; the state is updated exactly when the merge of the tracked
  value with the receiver's nullability differs from the tracked value and is not
  Unspecified, with the receiver expression as source; afterwards the region is tracked at
  the merged value; and a tracked Nullable with a Nonnull receiver leaves the context as
  it was.
\<close>

theorem checkPostObjCMessage_tracked_return:
  fixes M :: ObjCMethodCall and State :: ProgramState and Tracked :: NullabilityState
  defines "Computed \<equiv> getMostNullable (getValue Tracked) (getReceiverNullability M State)"
  assumes "M_getDecl M = Some D"
    and "isAnyPointerType (Method_getReturnType D)"
    and "getTrackRegion (M_getReturnValue M) False = Some ReturnRegion"
    and "\<not> isSuppressedMessage M
            (case Method_getClassInterface D of Some n \<Rightarrow> n | None \<Rightarrow> [])"
    and "get_NullabilityMap State ReturnRegion = Some Tracked"
    and "getValue Tracked = Nullable \<or> getValue Tracked = Contradicted"
  shows "Reports (checkPostObjCMessage M (startContext State inlined)) = []
       \<and> successors (checkPostObjCMessage M (startContext State inlined)) =
           [if Computed \<noteq> getValue Tracked \<and> Computed \<noteq> Unspecified
            then set_NullabilityMap State ReturnRegion
                   \<lparr>getValue = Computed, getNullabilitySource = M_getInstanceReceiver M\<rparr>
            else State]
       \<and> map (\<lambda>S'. map_option getValue (get_NullabilityMap S' ReturnRegion))
           (successors (checkPostObjCMessage M (startContext State inlined)))
           = [Some Computed]
       \<and> (getValue Tracked = Nullable \<and> getReceiverNullability M State = Nonnull
           \<longrightarrow> checkPostObjCMessage M (startContext State inlined)
                 = startContext State inlined)"
proof -
  have body: "checkPostObjCMessage M (startContext State inlined) =
     (if Computed \<noteq> getValue Tracked \<and> Computed \<noteq> Unspecified
      then snd (addTransition
                  (set_NullabilityMap State ReturnRegion
                     \<lparr>getValue = Computed, getNullabilitySource = M_getInstanceReceiver M\<rparr>)
                  None (startContext State inlined))
      else startContext State inlined)"
    using assms(2-6) by (simp add: checkPostObjCMessage_def Let_def Computed_def)
  have reports: "Reports (checkPostObjCMessage M (startContext State inlined)) = []"
    unfolding body by (simp add: addTransition_def startContext_def Let_def)
  have succs: "successors (checkPostObjCMessage M (startContext State inlined)) =
           [if Computed \<noteq> getValue Tracked \<and> Computed \<noteq> Unspecified
            then set_NullabilityMap State ReturnRegion
                   \<lparr>getValue = Computed, getNullabilitySource = M_getInstanceReceiver M\<rparr>
            else State]"
    unfolding body by simp
  have not_unspec: "Computed \<noteq> Unspecified"
    using assms(7) unfolding Computed_def
    by (cases "getReceiverNullability M State") (auto simp: getMostNullable_cases)
  have final: "map (\<lambda>S'. map_option getValue (get_NullabilityMap S' ReturnRegion))
           (successors (checkPostObjCMessage M (startContext State inlined)))
           = [Some Computed]"
    unfolding succs using not_unspec assms(6) by simp
  have particular: "getValue Tracked = Nullable \<and> getReceiverNullability M State = Nonnull
           \<longrightarrow> checkPostObjCMessage M (startContext State inlined)
                 = startContext State inlined"
    unfolding body by (simp add: Computed_def getMostNullable_cases)
  from reports succs final particular show ?thesis by blast
qed

theorem checkPostObjCMessage_tracked_return_witness:
  "M_getDecl (exMessage ''TestObject'')
     = Some \<lparr>Method_getReturnType = exPointer, Method_getClassInterface = Some ''TestObject''\<rparr>
   \<and> isAnyPointerType (Method_getReturnType
        \<lparr>Method_getReturnType = exPointer, Method_getClassInterface = Some ''TestObject''\<rparr>)
   \<and> getTrackRegion (M_getReturnValue (exMessage ''TestObject'')) False = Some exRegion
   \<and> \<not> isSuppressedMessage (exMessage ''TestObject'') ''TestObject''
   \<and> get_NullabilityMap (exState Nullable) exRegion
       = Some \<lparr>getValue = Nullable, getNullabilitySource = None\<rparr>
   \<and> getValue \<lparr>getValue = Nullable, getNullabilitySource = None\<rparr> = Nullable
   \<and> getReceiverNullability (exMessage ''TestObject'') (exState Nullable) = Nonnull
   \<and> Reports (checkPostObjCMessage (exMessage ''TestObject'')
                (startContext (exState Nullable) False)) = []
   \<and> successors (checkPostObjCMessage (exMessage ''TestObject'')
                   (startContext (exState Nullable) False)) = [exState Nullable]
   \<and> checkPostObjCMessage (exMessage ''TestObject'') (startContext (exState Nullable) False)
       = startContext (exState Nullable) False"
proof -
  let ?D = "\<lparr>Method_getReturnType = exPointer, Method_getClassInterface = Some ''TestObject''\<rparr>"
  let ?T = "\<lparr>getValue = Nullable, getNullabilitySource = None\<rparr>"
  have hyps:
    "M_getDecl (exMessage ''TestObject'') = Some ?D"
    "isAnyPointerType (Method_getReturnType ?D)"
    "getTrackRegion (M_getReturnValue (exMessage ''TestObject'')) False = Some exRegion"
    "\<not> isSuppressedMessage (exMessage ''TestObject'')
         (case Method_getClassInterface ?D of Some n \<Rightarrow> n | None \<Rightarrow> [])"
    "get_NullabilityMap (exState Nullable) exRegion = Some ?T"
    "getValue ?T = Nullable \<or> getValue ?T = Contradicted"
    by (simp_all add: ex_defs getTrackRegion_def get_NullabilityMap_def isSuppressedMessage_def)
  have recv: "getReceiverNullability (exMessage ''TestObject'') (exState Nullable) = Nonnull"
    by (simp add: getReceiverNullability_def exMessage_def)
  from checkPostObjCMessage_tracked_return [OF hyps, of False]
  show ?thesis using hyps recv by (simp add: getMostNullable_cases startContext_def successors_def)
qed

section \<open>Explicit casts are trusted\<close>

lemma Reports_start [simp]: "Reports (startContext S i) = []"
  by (simp add: startContext_def)

lemma Reports_addTransition [simp]:
  "Reports (snd (addTransition S' Tag (startContext S i))) = []"
  by (simp add: startContext_def addTransition_def Let_def)

lemma isNull_set [simp]: "isNull (set_NullabilityMap S R NS) = isNull S"
  by (simp add: set_NullabilityMap_def)

lemma getNullConstraint_set [simp]:
  "getNullConstraint V (set_NullabilityMap S R NS) = getNullConstraint V S"
  by (simp add: getNullConstraint_def)












end
